theory Spec2Isabelle
  imports Main
begin

unbundle bit_operations_syntax

section \<open>The cursor of apsw.c\<close>

text \<open>
  This theory embeds the cursor code of \<^verbatim>\<open>apsw.c\<close>: \<^verbatim>\<open>resetcursor\<close>,
  \<^verbatim>\<open>APSWCursor_dobinding\<close>, \<^verbatim>\<open>APSWCursor_dobindings\<close>, \<^verbatim>\<open>APSWCursor_doexectrace\<close>,
  \<^verbatim>\<open>APSWCursor_step\<close>, \<^verbatim>\<open>APSWCursor_execute\<close>, \<^verbatim>\<open>APSWCursor_executemany\<close>,
  \<^verbatim>\<open>APSWCursor_close\<close>, \<^verbatim>\<open>APSWCursor_next\<close> and the small accessors, together with the
  macros \<^verbatim>\<open>CHECK_USE\<close>, \<^verbatim>\<open>CHECK_CLOSED\<close> and \<^verbatim>\<open>SET_EXC\<close>.

  The build that is modelled is the one for Python 3 with UTF-8 strings, without test
  fixtures (\<^verbatim>\<open>APSW_FAULT_INJECT\<close> runs its ``good'' branch) and with \<^verbatim>\<open>assert\<close> compiled
  out. Reference counts, tracebacks and allocation failures are not modelled.

  The SQLite library, the statement cache (\<^verbatim>\<open>statementcache.c\<close>) and the Python callbacks
  are outside the embedded code. They are a parameter \<open>E\<close> of every function: each answer
  of \<open>E\<close> may depend on the whole list of calls made so far, which makes \<open>E\<close> an
  arbitrary deterministic environment. Every call of a function that changes the
  environment is appended to that list.
\<close>

subsection \<open>Result codes and exceptions\<close>

abbreviation SQLITE_OK :: int where "SQLITE_OK \<equiv> 0"
abbreviation SQLITE_ERROR :: int where "SQLITE_ERROR \<equiv> 1"
abbreviation SQLITE_INTERNAL :: int where "SQLITE_INTERNAL \<equiv> 2"
abbreviation SQLITE_PERM :: int where "SQLITE_PERM \<equiv> 3"
abbreviation SQLITE_ABORT :: int where "SQLITE_ABORT \<equiv> 4"
abbreviation SQLITE_BUSY :: int where "SQLITE_BUSY \<equiv> 5"
abbreviation SQLITE_LOCKED :: int where "SQLITE_LOCKED \<equiv> 6"
abbreviation SQLITE_NOMEM :: int where "SQLITE_NOMEM \<equiv> 7"
abbreviation SQLITE_READONLY :: int where "SQLITE_READONLY \<equiv> 8"
abbreviation SQLITE_INTERRUPT :: int where "SQLITE_INTERRUPT \<equiv> 9"
abbreviation SQLITE_IOERR :: int where "SQLITE_IOERR \<equiv> 10"
abbreviation SQLITE_CORRUPT :: int where "SQLITE_CORRUPT \<equiv> 11"
abbreviation SQLITE_FULL :: int where "SQLITE_FULL \<equiv> 13"
abbreviation SQLITE_CANTOPEN :: int where "SQLITE_CANTOPEN \<equiv> 14"
abbreviation SQLITE_PROTOCOL :: int where "SQLITE_PROTOCOL \<equiv> 15"
abbreviation SQLITE_EMPTY :: int where "SQLITE_EMPTY \<equiv> 16"
abbreviation SQLITE_SCHEMA :: int where "SQLITE_SCHEMA \<equiv> 17"
abbreviation SQLITE_TOOBIG :: int where "SQLITE_TOOBIG \<equiv> 18"
abbreviation SQLITE_CONSTRAINT :: int where "SQLITE_CONSTRAINT \<equiv> 19"
abbreviation SQLITE_MISMATCH :: int where "SQLITE_MISMATCH \<equiv> 20"
abbreviation SQLITE_MISUSE :: int where "SQLITE_MISUSE \<equiv> 21"
abbreviation SQLITE_NOLFS :: int where "SQLITE_NOLFS \<equiv> 22"
abbreviation SQLITE_AUTH :: int where "SQLITE_AUTH \<equiv> 23"
abbreviation SQLITE_FORMAT :: int where "SQLITE_FORMAT \<equiv> 24"
abbreviation SQLITE_RANGE :: int where "SQLITE_RANGE \<equiv> 25"
abbreviation SQLITE_NOTADB :: int where "SQLITE_NOTADB \<equiv> 26"
abbreviation SQLITE_ROW :: int where "SQLITE_ROW \<equiv> 100"
abbreviation SQLITE_DONE :: int where "SQLITE_DONE \<equiv> 101"

abbreviation APSW_INT32_MAX :: int where "APSW_INT32_MAX \<equiv> 2147483647"

text \<open>
  The exceptions the cursor code can leave in the interpreter's error indicator.
  \<open>ExcSQLite name result extendedresult\<close> is the class \<open>name\<close>\<^verbatim>\<open>Error\<close> that
  \<^verbatim>\<open>make_exception\<close> builds from a result code; \<open>APSWException\<close> is its fallback, and
  \<open>APSWException_ColumnType\<close> the same class as \<^verbatim>\<open>convert_column_to_pyobject\<close> raises it for
  a column type it does not know; \<open>PyExc_Raised\<close> is whatever a callback or an iterator
  raised.
\<close>

datatype pyexc =
    ExcThreadingViolation
  | ExcIncomplete
  | ExcBindings
  | ExcComplete
  | ExcTraceAbort
  | ExcConnectionClosed
  | ExcSQLite string int int
  | APSWException int
  | APSWException_ColumnType int
  | PyExc_TypeError
  | PyExc_OverflowError
  | PyExc_SystemError
  | PyExc_UnicodeDecodeError
  | PyExc_UnicodeEncodeError
  | PyExc_Raised string

definition exc_descriptors :: "(int \<times> string) list" where
  "exc_descriptors =
    [(SQLITE_ERROR, ''SQL''), (SQLITE_MISMATCH, ''Mismatch''),
     (SQLITE_INTERNAL, ''Internal''), (SQLITE_PROTOCOL, ''Protocol''),
     (SQLITE_MISUSE, ''Misuse''), (SQLITE_RANGE, ''Range''),
     (SQLITE_PERM, ''Permissions''), (SQLITE_READONLY, ''ReadOnly''),
     (SQLITE_CANTOPEN, ''CantOpen''), (SQLITE_AUTH, ''Auth''),
     (SQLITE_ABORT, ''Abort''), (SQLITE_BUSY, ''Busy''), (SQLITE_LOCKED, ''Locked''),
     (SQLITE_INTERRUPT, ''Interrupt''), (SQLITE_SCHEMA, ''SchemaChange''),
     (SQLITE_CONSTRAINT, ''Constraint''),
     (SQLITE_NOMEM, ''NoMem''), (SQLITE_IOERR, ''IO''), (SQLITE_CORRUPT, ''Corrupt''),
     (SQLITE_FULL, ''Full''), (SQLITE_TOOBIG, ''TooBig''), (SQLITE_NOLFS, ''NoLFS''),
     (SQLITE_EMPTY, ''Empty''), (SQLITE_FORMAT, ''Format''), (SQLITE_NOTADB, ''NotADB'')]"

definition make_exception :: "int \<Rightarrow> pyexc" where
  "make_exception res =
     (case map_of exc_descriptors (res AND 0xff) of
        Some name \<Rightarrow> ExcSQLite name (res AND 0xff) res
      | None \<Rightarrow> APSWException res)"

subsection \<open>Python objects\<close>

text \<open>
  The objects that reach the cursor: binding values, binding collections, iterators and
  callables. A \<^verbatim>\<open>str\<close> is held as its UTF-8 encoding; a \<^verbatim>\<open>str\<close> that has none, because
  it has a lone surrogate, is held as a byte string that is not well formed. A dictionary
  is an association list from its string keys. An iterator is the list of the outcomes of
  its successive \<^verbatim>\<open>next\<close> calls, each a value or a raised exception, and it is exhausted
  when the list is empty; it is \<open>Builtin\<close> when its \<^verbatim>\<open>tp_iter\<close> and \<^verbatim>\<open>tp_iternext\<close> are C
  functions that do not look at the error indicator (the iterators of lists, tuples,
  dictionaries, strings and bytes), and \<open>Scripted\<close> when they are the
  methods \<^verbatim>\<open>__iter__\<close> and \<^verbatim>\<open>__next__\<close> of a class written in Python.
\<close>

datatype iterkind = Builtin | Scripted

datatype pyobj =
    Py_None
  | PyLong int
  | PyFloat nat
  | PyUnicode string
  | PyBuffer "nat list"
  | ZeroBlobBind int
  | PyDict "(string \<times> pyobj) list"
  | PySeq "pyobj list"
  | PyIterator iterkind "(pyexc + pyobj) list"
  | PyCallable nat
  | PyObject nat

type_synonym pyiter = "iterkind \<times> (pyexc + pyobj) list"

fun PyDict_Check :: "pyobj \<Rightarrow> bool" where
  "PyDict_Check (PyDict kvs) = True"
| "PyDict_Check _ = False"

fun PyCallable_Check :: "pyobj \<Rightarrow> bool" where
  "PyCallable_Check (PyCallable f) = True"
| "PyCallable_Check _ = False"

fun iter_outcomes :: "(pyexc + pyobj) list \<Rightarrow> pyexc + pyobj list" where
  "iter_outcomes [] = Inr []"
| "iter_outcomes (Inl e # rest) = Inl e"
| "iter_outcomes (Inr x # rest) =
     (case iter_outcomes rest of Inl e \<Rightarrow> Inl e | Inr xs \<Rightarrow> Inr (x # xs))"

text \<open>
  The code points of a text in UTF-8: the first byte of each gives the number of its
  bytes. A text is well formed when each of them is one of the byte sequences of the
  Unicode standard (no overlong form, no surrogate, nothing above \<^verbatim>\<open>U+10FFFF\<close>).
\<close>

definition utf8_width :: "char \<Rightarrow> nat" where
  "utf8_width c =
     (if (of_char c :: nat) < 0xC0 then 1
      else if (of_char c :: nat) < 0xE0 then 2
      else if (of_char c :: nat) < 0xF0 then 3 else 4)"

fun utf8_split :: "string \<Rightarrow> string list" where
  "utf8_split [] = []"
| "utf8_split (c # cs) =
     (c # take (utf8_width c - 1) cs) # utf8_split (drop (utf8_width c - 1) cs)"

definition utf8_cont :: "nat \<Rightarrow> bool" where
  "utf8_cont b = (0x80 \<le> b \<and> b \<le> 0xBF)"

fun utf8_wellformed_char :: "nat list \<Rightarrow> bool" where
  "utf8_wellformed_char [a] = (a < 0x80)"
| "utf8_wellformed_char [a, b] = (0xC2 \<le> a \<and> a \<le> 0xDF \<and> utf8_cont b)"
| "utf8_wellformed_char [a, b, c] =
     (((a = 0xE0 \<and> 0xA0 \<le> b \<and> b \<le> 0xBF) \<or> (0xE1 \<le> a \<and> a \<le> 0xEC \<and> utf8_cont b)
       \<or> (a = 0xED \<and> 0x80 \<le> b \<and> b \<le> 0x9F) \<or> (0xEE \<le> a \<and> a \<le> 0xEF \<and> utf8_cont b))
      \<and> utf8_cont c)"
| "utf8_wellformed_char [a, b, c, d] =
     (((a = 0xF0 \<and> 0x90 \<le> b \<and> b \<le> 0xBF) \<or> (0xF1 \<le> a \<and> a \<le> 0xF3 \<and> utf8_cont b)
       \<or> (a = 0xF4 \<and> 0x80 \<le> b \<and> b \<le> 0x8F))
      \<and> utf8_cont c \<and> utf8_cont d)"
| "utf8_wellformed_char _ = False"

definition utf8_wellformed :: "string \<Rightarrow> bool" where
  "utf8_wellformed s =
     list_all (\<lambda>ch. utf8_wellformed_char (map of_char ch)) (utf8_split s)"

text \<open>
  \<^verbatim>\<open>PyUnicode_DecodeUTF8\<close> with strict errors, as \<^verbatim>\<open>convertutf8stringsize\<close> and
  \<^verbatim>\<open>APSWCursor_dobindings\<close> call it, and \<^verbatim>\<open>PyUnicode_AsUTF8String\<close>, which gives the bytes of a
  \<^verbatim>\<open>str\<close> and fails on one that cannot be encoded.
\<close>

definition PyUnicode_DecodeUTF8 :: "string \<Rightarrow> pyexc + pyobj" where
  "PyUnicode_DecodeUTF8 s =
     (if utf8_wellformed s then Inr (PyUnicode s) else Inl PyExc_UnicodeDecodeError)"

definition PyUnicode_AsUTF8String :: "string \<Rightarrow> pyexc + string" where
  "PyUnicode_AsUTF8String s =
     (if utf8_wellformed s then Inr s else Inl PyExc_UnicodeEncodeError)"

text \<open>\<^verbatim>\<open>PyDict_GetItem\<close>: the value of a key, or none; it raises nothing.\<close>

fun PyDict_GetItem :: "(string \<times> pyobj) list \<Rightarrow> pyobj \<Rightarrow> pyobj option" where
  "PyDict_GetItem kvs (PyUnicode k) = map_of kvs k"
| "PyDict_GetItem kvs _ = None"

text \<open>
  The iterator of an object, or none when it is not iterable: a list or tuple yields its
  items, a string its code points, a bytes object its bytes as integers, a dictionary
  its keys.
\<close>

fun iterator_of :: "pyobj \<Rightarrow> pyiter option" where
  "iterator_of (PySeq xs) = Some (Builtin, map Inr xs)"
| "iterator_of (PyIterator k outs) = Some (k, outs)"
| "iterator_of (PyUnicode s) = Some (Builtin, map (\<lambda>ch. Inr (PyUnicode ch)) (utf8_split s))"
| "iterator_of (PyBuffer bs) = Some (Builtin, map (\<lambda>b. Inr (PyLong (int b))) bs)"
| "iterator_of (PyDict kvs)
     = Some (Builtin, map (\<lambda>k. Inr (PyUnicode k)) (remdups (map fst kvs)))"
| "iterator_of _ = None"

definition PySequence_GetSlice :: "pyobj list \<Rightarrow> int \<Rightarrow> int \<Rightarrow> pyobj list" where
  "PySequence_GetSlice xs i1 i2 =
     (let n = int (length xs);
          a = (if i1 < 0 then i1 + n else i1);
          b = (if i2 < 0 then i2 + n else i2);
          lo = max 0 (min a n);
          hi = max 0 (min b n)
      in take (nat (hi - lo)) (drop (nat lo) xs))"

subsection \<open>The environment: SQLite, the statement cache and Python callbacks\<close>

type_synonym sqlite3_stmt = nat

datatype sqlvalue =
    SqlNull
  | SqlInt64 int
  | SqlDouble nat
  | SqlText string
  | SqlBlob "nat list"
  | SqlZeroBlob int

text \<open>
  A column of the current row as SQLite holds it: \<^verbatim>\<open>sqlite3_column_type\<close> with the content
  of that type. The bytes of a text need not be well-formed UTF-8.
\<close>

datatype sqlcolumn =
    ColInteger int
  | ColFloat nat
  | ColText string
  | ColNull
  | ColBlob "nat list"
  | ColOther int

datatype call =
    CallPrepare string
  | CallFinalize "sqlite3_stmt option"
  | CallStep sqlite3_stmt
  | CallBind "sqlite3_stmt option" int sqlvalue
  | CallPython pyobj "pyobj list"

text \<open>
  The answers of the environment. The first argument of a function that takes a list of
  calls is the list of the calls made before this one; the number and the names of the
  parameters of a compiled statement are fixed with its handle. \<open>lib_prepare\<close> answers \<^verbatim>\<open>statementcache_prepare\<close> with the
  result code, the statement handle (none for an empty statement or a failure) and the
  unconsumed tail of the text; \<open>lib_finalize\<close> answers \<^verbatim>\<open>statementcache_finalize\<close>;
  \<open>lib_step\<close> answers \<^verbatim>\<open>sqlite3_step\<close> with the result code and the exception a user callback
  raised during the step, if any; \<open>lib_row\<close> is the current row, each column with its
  type and content; \<open>py_call\<close> is the outcome of calling a Python
  callable and \<open>py_istrue\<close> of \<^verbatim>\<open>PyObject_IsTrue\<close>.
\<close>

record env =
  lib_prepare :: "call list \<Rightarrow> string \<Rightarrow> int \<times> sqlite3_stmt option \<times> string"
  lib_finalize :: "call list \<Rightarrow> sqlite3_stmt option \<Rightarrow> int"
  lib_step :: "call list \<Rightarrow> sqlite3_stmt \<Rightarrow> int \<times> pyexc option"
  lib_parameter_count :: "sqlite3_stmt \<Rightarrow> int"
  lib_parameter_name :: "sqlite3_stmt \<Rightarrow> int \<Rightarrow> string option"
  lib_bind :: "call list \<Rightarrow> sqlite3_stmt \<Rightarrow> int \<Rightarrow> sqlvalue \<Rightarrow> int"
  lib_row :: "call list \<Rightarrow> sqlite3_stmt \<Rightarrow> sqlcolumn list"
  py_call :: "call list \<Rightarrow> pyobj \<Rightarrow> pyobj list \<Rightarrow> pyexc + pyobj"
  py_istrue :: "pyobj \<Rightarrow> pyexc + bool"

text \<open>
  The state outside the cursor: the interpreter's error indicator (\<^verbatim>\<open>PyErr_Occurred\<close>) and
  the calls made into the environment so far.
\<close>

record world =
  pyerr :: "pyexc option"
  calls :: "call list"

definition PyErr_Set :: "pyexc \<Rightarrow> world \<Rightarrow> world" where
  "PyErr_Set e w = w\<lparr>pyerr := Some e\<rparr>"

definition PyErr_Occurred :: "world \<Rightarrow> bool" where
  "PyErr_Occurred w = (pyerr w \<noteq> None)"

definition SET_EXC :: "int \<Rightarrow> world \<Rightarrow> world" where
  "SET_EXC res w =
     (if res \<noteq> SQLITE_OK \<and> \<not> PyErr_Occurred w then PyErr_Set (make_exception res) w else w)"

definition statementcache_prepare ::
  "env \<Rightarrow> string \<Rightarrow> world \<Rightarrow> (int \<times> sqlite3_stmt option \<times> string) \<times> world" where
  "statementcache_prepare E sql w =
     (lib_prepare E (calls w) sql, w\<lparr>calls := calls w @ [CallPrepare sql]\<rparr>)"

definition statementcache_finalize :: "env \<Rightarrow> sqlite3_stmt option \<Rightarrow> world \<Rightarrow> int \<times> world" where
  "statementcache_finalize E stmt w =
     (lib_finalize E (calls w) stmt, w\<lparr>calls := calls w @ [CallFinalize stmt]\<rparr>)"

definition sqlite3_step :: "env \<Rightarrow> sqlite3_stmt \<Rightarrow> world \<Rightarrow> int \<times> world" where
  "sqlite3_step E stmt w =
     (case lib_step E (calls w) stmt of
        (res, raised) \<Rightarrow>
          (res, w\<lparr>pyerr := (case raised of None \<Rightarrow> pyerr w | Some e \<Rightarrow> Some e),
                 calls := calls w @ [CallStep stmt]\<rparr>))"

text \<open>SQLite answers for a null statement handle without touching anything.\<close>

definition sqlite3_bind_parameter_count :: "env \<Rightarrow> sqlite3_stmt option \<Rightarrow> int" where
  "sqlite3_bind_parameter_count E stmt =
     (case stmt of None \<Rightarrow> 0 | Some h \<Rightarrow> lib_parameter_count E h)"

definition sqlite3_bind_parameter_name ::
  "env \<Rightarrow> sqlite3_stmt option \<Rightarrow> int \<Rightarrow> string option" where
  "sqlite3_bind_parameter_name E stmt arg =
     (case stmt of None \<Rightarrow> None | Some h \<Rightarrow> lib_parameter_name E h arg)"

definition sqlite3_bind ::
  "env \<Rightarrow> sqlite3_stmt option \<Rightarrow> int \<Rightarrow> sqlvalue \<Rightarrow> world \<Rightarrow> int \<times> world" where
  "sqlite3_bind E stmt arg v w =
     ((case stmt of None \<Rightarrow> SQLITE_MISUSE | Some h \<Rightarrow> lib_bind E (calls w) h arg v),
      w\<lparr>calls := calls w @ [CallBind stmt arg v]\<rparr>)"

definition sqlite3_row :: "env \<Rightarrow> sqlite3_stmt option \<Rightarrow> world \<Rightarrow> sqlcolumn list" where
  "sqlite3_row E stmt w = (case stmt of None \<Rightarrow> [] | Some h \<Rightarrow> lib_row E (calls w) h)"

text \<open>
  Calling a Python callable: the result, or none with the raised exception set. The
  interpreter does not accept a result that is returned while an exception is set: it
  drops the result and raises \<^verbatim>\<open>SystemError\<close>.
\<close>

definition PyObject_CallFunction ::
  "env \<Rightarrow> pyobj \<Rightarrow> pyobj list \<Rightarrow> world \<Rightarrow> pyobj option \<times> world" where
  "PyObject_CallFunction E f args w =
     (let w' = w\<lparr>calls := calls w @ [CallPython f args]\<rparr>
      in case py_call E (calls w) f args of
           Inl e \<Rightarrow> (None, PyErr_Set e w')
         | Inr r \<Rightarrow>
             if PyErr_Occurred w then (None, PyErr_Set PyExc_SystemError w')
             else (Some r, w'))"

text \<open>\<^verbatim>\<open>PyObject_IsTrue\<close>: 1, 0, or -1 with an exception set.\<close>

definition PyObject_IsTrue :: "env \<Rightarrow> pyobj \<Rightarrow> world \<Rightarrow> int \<times> world" where
  "PyObject_IsTrue E obj w =
     (case py_istrue E obj of
        Inl e \<Rightarrow> (-1, PyErr_Set e w)
      | Inr b \<Rightarrow> (if b then 1 else 0, w))"

text \<open>
  \<^verbatim>\<open>PyIter_Next\<close>: the next item and the rest of the iterator; no item, and the error
  indicator as it was, when the iterator is exhausted; no item and the exception set when
  it raises. The \<^verbatim>\<open>__next__\<close> of a \<open>Scripted\<close> iterator is a call of a Python function: made
  while an exception is set, it yields no item and ends in \<^verbatim>\<open>SystemError\<close>.
\<close>

fun iter_pop :: "iterkind \<Rightarrow> (pyexc + pyobj) list \<Rightarrow> world \<Rightarrow> pyobj option \<times> pyiter \<times> world" where
  "iter_pop k [] w = (None, (k, []), w)"
| "iter_pop k (Inr x # rest) w = (Some x, (k, rest), w)"
| "iter_pop k (Inl e # rest) w = (None, (k, rest), PyErr_Set e w)"

definition PyIter_Next :: "pyiter \<Rightarrow> world \<Rightarrow> pyobj option \<times> pyiter \<times> world" where
  "PyIter_Next it w =
     (if fst it = Scripted \<and> PyErr_Occurred w then (None, it, PyErr_Set PyExc_SystemError w)
      else iter_pop (fst it) (snd it) w)"

text \<open>
  \<^verbatim>\<open>PyObject_GetIter\<close>: the iterator of an object, or \<^verbatim>\<open>TypeError\<close> when it is not iterable.
  The \<^verbatim>\<open>__iter__\<close> of a \<open>Scripted\<close> iterator is a call of a Python function, which ends in
  \<^verbatim>\<open>SystemError\<close> when an exception is set.
\<close>

definition PyObject_GetIter :: "pyobj \<Rightarrow> world \<Rightarrow> pyexc + pyiter" where
  "PyObject_GetIter obj w =
     (case iterator_of obj of
        None \<Rightarrow> Inl PyExc_TypeError
      | Some it \<Rightarrow>
          if fst it = Scripted \<and> PyErr_Occurred w then Inl PyExc_SystemError else Inr it)"

text \<open>
  \<^verbatim>\<open>PySequence_Fast\<close>: a list or tuple is returned as it is, any other iterable is read
  out into a list, anything else is a \<^verbatim>\<open>TypeError\<close>. Reading out stops with the exception
  the iterator raises; it also fails, at the end of the iterator, when an exception was
  set before, which it leaves.
\<close>

fun PySequence_Fast :: "pyobj \<Rightarrow> world \<Rightarrow> pyexc + pyobj" where
  "PySequence_Fast (PySeq xs) w = Inr (PySeq xs)"
| "PySequence_Fast obj w =
     (case PyObject_GetIter obj w of
        Inl e \<Rightarrow> Inl e
      | Inr it \<Rightarrow>
          (case pyerr w of
             Some e \<Rightarrow> Inl e
           | None \<Rightarrow>
               (case iter_outcomes (snd it) of
                  Inl e \<Rightarrow> Inl e
                | Inr xs \<Rightarrow> Inr (PySeq xs))))"

text \<open>\<^verbatim>\<open>convert_column_to_pyobject\<close>, on a column as SQLite holds it.\<close>

fun convert_column_to_pyobject :: "sqlcolumn \<Rightarrow> pyexc + pyobj" where
  "convert_column_to_pyobject (ColInteger i) = Inr (PyLong i)"
| "convert_column_to_pyobject (ColFloat d) = Inr (PyFloat d)"
| "convert_column_to_pyobject (ColText s) = PyUnicode_DecodeUTF8 s"
| "convert_column_to_pyobject ColNull = Inr Py_None"
| "convert_column_to_pyobject (ColBlob bs) = Inr (PyBuffer bs)"
| "convert_column_to_pyobject (ColOther t) = Inl (APSWException_ColumnType t)"

subsection \<open>The cursor\<close>

datatype status = C_BEGIN | C_ROW | C_DONE

record Connection =
  db :: "nat option"

text \<open>
  \<^verbatim>\<open>zsqlnextpos\<close> points into the text of \<^verbatim>\<open>zsql\<close>; it is modelled by the text it points
  at, that is the part of the SQL not yet compiled.
\<close>

record APSWCursor =
  connection :: Connection
  statement :: "sqlite3_stmt option"
  inuse :: nat
  zsql :: "string option"
  zsqlnextpos :: "string option"
  status :: status
  bindings :: "pyobj option"
  bindingsoffset :: int
  emiter :: "pyiter option"
  exectrace :: "pyobj option"
  rowtrace :: "pyobj option"

text \<open>What a method hands back to Python: \<^verbatim>\<open>NULL\<close>, the cursor itself, or an object.\<close>

datatype retval = RetNULL | RetSelf | RetObj pyobj

text \<open>
  \<^verbatim>\<open>CHECK_USE\<close> and \<^verbatim>\<open>CHECK_CLOSED\<close> leave the function they are written in; the model gives
  the world of that early return, or none when the macro falls through.
\<close>

definition CHECK_USE :: "APSWCursor \<Rightarrow> world \<Rightarrow> world option" where
  "CHECK_USE self w =
     (if inuse self \<noteq> 0
      then Some (if \<not> PyErr_Occurred w then PyErr_Set ExcThreadingViolation w else w)
      else None)"

definition CHECK_CLOSED :: "Connection \<Rightarrow> world \<Rightarrow> world option" where
  "CHECK_CLOSED conn w =
     (if db conn = None then Some (PyErr_Set ExcConnectionClosed w) else None)"

definition APSWCursor_init :: "Connection \<Rightarrow> APSWCursor" where
  "APSWCursor_init conn =
     \<lparr>connection = conn, statement = None, inuse = 0, zsql = None, zsqlnextpos = None,
      status = C_DONE, bindings = None, bindingsoffset = 0, emiter = None,
      exectrace = None, rowtrace = None\<rparr>"

text \<open>\<^verbatim>\<open>resetcursor\<close>: finalization and release of resources; returns the SQLite error code.\<close>

definition resetcursor :: "env \<Rightarrow> APSWCursor \<Rightarrow> int \<Rightarrow> world \<Rightarrow> int \<times> APSWCursor \<times> world" where
  "resetcursor E self force w =
     (let self1 = self\<lparr>bindings := None, bindingsoffset := -1\<rparr>;
          (res1, w1) =
            (case statement self1 of
               None \<Rightarrow> (SQLITE_OK, w)
             | Some h \<Rightarrow>
                 (case statementcache_finalize E (Some h) w of
                    (r, w0) \<Rightarrow> (r, if force = 0 then SET_EXC r w0 else w0)));
          self2 = self1\<lparr>statement := None\<rparr>;
          (res2, w2) =
            (if force = 0 \<and> status self2 \<noteq> C_DONE \<and> zsqlnextpos self2 \<noteq> None
             then (if the (zsqlnextpos self2) \<noteq> [] \<and> res1 = SQLITE_OK
                   then (SQLITE_ERROR,
                         if \<not> PyErr_Occurred w1 then PyErr_Set ExcIncomplete w1 else w1)
                   else (res1, w1))
             else (res1, w1));
          self3 = self2\<lparr>zsqlnextpos := None\<rparr>;
          (res3, self4, w3) =
            (if force = 0 \<and> status self3 \<noteq> C_DONE \<and> emiter self3 \<noteq> None
             then (case PyIter_Next (the (emiter self3)) w2 of
                     (next, it, wn) \<Rightarrow>
                       (if next \<noteq> None
                        then (SQLITE_ERROR, self3\<lparr>emiter := Some it\<rparr>,
                              if \<not> PyErr_Occurred wn then PyErr_Set ExcIncomplete wn else wn)
                        else (res2, self3\<lparr>emiter := Some it\<rparr>, wn)))
             else (res2, self3, w2));
          self5 = self4\<lparr>emiter := None, zsql := None, status := C_DONE\<rparr>
      in (res3, self5, w3))"

subsection \<open>Bindings\<close>

text \<open>
  \<^verbatim>\<open>PyLong_AsLongLong\<close> fails with \<^verbatim>\<open>OverflowError\<close> and the value -1 outside the range of
  a 64 bit integer.
\<close>

definition PyLong_AsLongLong :: "int \<Rightarrow> world \<Rightarrow> int \<times> world" where
  "PyLong_AsLongLong i w =
     (if - 9223372036854775808 \<le> i \<and> i \<le> 9223372036854775807 then (i, w)
      else (-1, PyErr_Set PyExc_OverflowError w))"

text \<open>
  \<^verbatim>\<open>APSWCursor_dobinding\<close>: binds one value to parameter \<open>arg\<close>; 0 on success, -1 with an
  exception set otherwise. A text is bound as its UTF-8 bytes.
\<close>

definition APSWCursor_dobinding :: "env \<Rightarrow> APSWCursor \<Rightarrow> int \<Rightarrow> pyobj \<Rightarrow> world \<Rightarrow> int \<times> world" where
  "APSWCursor_dobinding E self arg obj w =
     (if PyErr_Occurred w then (-1, w)
      else
        (let finish = (\<lambda>(res, w1).
               if res \<noteq> SQLITE_OK then (-1, SET_EXC res w1)
               else if PyErr_Occurred w1 then (-1, w1)
               else (0, w1))
         in case obj of
              Py_None \<Rightarrow> finish (sqlite3_bind E (statement self) arg SqlNull w)
            | PyLong i \<Rightarrow>
                (case PyLong_AsLongLong i w of
                   (v, w1) \<Rightarrow> finish (sqlite3_bind E (statement self) arg (SqlInt64 v) w1))
            | PyFloat d \<Rightarrow> finish (sqlite3_bind E (statement self) arg (SqlDouble d) w)
            | PyUnicode s \<Rightarrow>
                (case PyUnicode_AsUTF8String s of
                   Inl e \<Rightarrow> (-1, PyErr_Set e w)
                 | Inr strdata \<Rightarrow>
                     if int (length strdata) > APSW_INT32_MAX
                     then finish (SQLITE_OK, SET_EXC SQLITE_TOOBIG w)
                     else finish (sqlite3_bind E (statement self) arg (SqlText strdata) w))
            | PyBuffer bs \<Rightarrow>
                (if int (length bs) > APSW_INT32_MAX
                 then (-1, SET_EXC SQLITE_TOOBIG w)
                 else finish (sqlite3_bind E (statement self) arg (SqlBlob bs) w))
            | ZeroBlobBind n \<Rightarrow> finish (sqlite3_bind E (statement self) arg (SqlZeroBlob n) w)
            | _ \<Rightarrow> (-1, PyErr_Set PyExc_TypeError w)))"

text \<open>
  The loop of \<^verbatim>\<open>APSWCursor_dobindings\<close> over the parameters \<open>1..nargs\<close> when the bindings
  are a dictionary: a parameter without a name is an error, the name is taken without its
  first character and decoded, and a name the dictionary does not have is skipped.
\<close>

fun dobindings_dict :: "env \<Rightarrow> APSWCursor \<Rightarrow> (string \<times> pyobj) list \<Rightarrow> int list \<Rightarrow> world \<Rightarrow> int \<times> world" where
  "dobindings_dict E self kvs [] w = (0, w)"
| "dobindings_dict E self kvs (arg # args) w =
     (case sqlite3_bind_parameter_name E (statement self) arg of
        None \<Rightarrow> (-1, PyErr_Set ExcBindings w)
      | Some key \<Rightarrow>
          (case PyUnicode_DecodeUTF8 (tl key) of
             Inl e \<Rightarrow> (-1, PyErr_Set e w)
           | Inr keyo \<Rightarrow>
               (case PyDict_GetItem kvs keyo of
                  None \<Rightarrow> dobindings_dict E self kvs args w
                | Some obj \<Rightarrow>
                    (case APSWCursor_dobinding E self arg obj w of
                       (r, w1) \<Rightarrow>
                         if r \<noteq> SQLITE_OK then (-1, w1)
                         else dobindings_dict E self kvs args w1))))"

text \<open>
  The loop over the parameters when the bindings are a sequence. Reading the sequence
  outside its bounds has no defined result (\<open>None\<close>).
\<close>

fun dobindings_seq :: "env \<Rightarrow> APSWCursor \<Rightarrow> pyobj list \<Rightarrow> int list \<Rightarrow> world \<Rightarrow> (int \<times> world) option" where
  "dobindings_seq E self xs [] w = Some (0, w)"
| "dobindings_seq E self xs (arg # args) w =
     (let i = arg - 1 + bindingsoffset self
      in if i < 0 \<or> int (length xs) \<le> i then None
         else (case APSWCursor_dobinding E self arg (xs ! nat i) w of
                 (r, w1) \<Rightarrow>
                   if r \<noteq> 0 then Some (-1, w1)
                   else dobindings_seq E self xs args w1))"

text \<open>
  The items of \<^verbatim>\<open>self->bindings\<close> as \<^verbatim>\<open>PySequence_Fast_GET_SIZE\<close> and
  \<^verbatim>\<open>PySequence_Fast_GET_ITEM\<close> see them: a null pointer counts as no items (the code tests
  it), a list or tuple has its items, and the macros are undefined on anything else.
\<close>

fun PySequence_Fast_ITEMS :: "pyobj option \<Rightarrow> pyobj list option" where
  "PySequence_Fast_ITEMS None = Some []"
| "PySequence_Fast_ITEMS (Some (PySeq xs)) = Some xs"
| "PySequence_Fast_ITEMS (Some _) = None"

text \<open>
  \<^verbatim>\<open>APSWCursor_dobindings\<close>: 0 on success, -1 with an exception set otherwise. The result
  is \<open>None\<close> where the C code dereferences a null \<^verbatim>\<open>zsqlnextpos\<close>, takes the size of a
  \<^verbatim>\<open>bindings\<close> object that is neither a dictionary nor a list, or reads outside the list.
\<close>

definition APSWCursor_dobindings :: "env \<Rightarrow> APSWCursor \<Rightarrow> world \<Rightarrow> (int \<times> APSWCursor \<times> world) option" where
  "APSWCursor_dobindings E self w =
     (if PyErr_Occurred w then Some (-1, self, w)
      else
        (let nargs = sqlite3_bind_parameter_count E (statement self)
         in if nargs > 0 \<and> bindings self = None
            then Some (-1, self, PyErr_Set ExcBindings w)
            else
              (case bindings self of
                 Some (PyDict kvs) \<Rightarrow>
                   (case dobindings_dict E self kvs [1..nargs] w of
                      (r, w1) \<Rightarrow> Some (r, self, w1))
               | other \<Rightarrow>
                   (case (PySequence_Fast_ITEMS other, zsqlnextpos self) of
                      (Some xs, Some rest) \<Rightarrow>
                        (let sz = int (length xs)
                         in if rest \<noteq> [] \<and> sz - bindingsoffset self < nargs
                            then Some (-1, self, PyErr_Set ExcBindings w)
                            else if rest = [] \<and> sz - bindingsoffset self \<noteq> nargs
                            then Some (-1, self, PyErr_Set ExcBindings w)
                            else
                              (case dobindings_seq E self xs [1..nargs] w of
                                 None \<Rightarrow> None
                               | Some (r, w1) \<Rightarrow>
                                   if r \<noteq> 0 then Some (-1, self, w1)
                                   else Some (0, self\<lparr>bindingsoffset :=
                                                bindingsoffset self + nargs\<rparr>, w1)))
                    | _ \<Rightarrow> None))))"

subsection \<open>The execution trace callback\<close>

record exectrace_oldstate =
  previouszsqlpos :: "string option"
  savedbindingsoffset :: int

text \<open>
  The bindings the tracer is shown: a dictionary as it is, of a sequence the slice this
  statement used, \<^verbatim>\<open>None\<close> when there are no bindings. \<^verbatim>\<open>PySequence_GetSlice\<close> fails on an
  object that is no sequence.
\<close>

fun exectrace_bindings :: "pyobj option \<Rightarrow> int \<Rightarrow> int \<Rightarrow> pyobj option" where
  "exectrace_bindings None i1 i2 = Some Py_None"
| "exectrace_bindings (Some (PyDict kvs)) i1 i2 = Some (PyDict kvs)"
| "exectrace_bindings (Some (PySeq xs)) i1 i2 = Some (PySeq (PySequence_GetSlice xs i1 i2))"
| "exectrace_bindings (Some _) i1 i2 = None"

text \<open>
  \<^verbatim>\<open>APSWCursor_doexectrace\<close>: calls the tracer with the text of the statement just compiled
  (from \<^verbatim>\<open>previouszsqlpos\<close> up to \<^verbatim>\<open>zsqlnextpos\<close>) and its bindings; 0 to go on, -1 with an
  exception set otherwise. The result is \<open>None\<close> where the C code dereferences a null
  pointer.
\<close>

definition APSWCursor_doexectrace :: "env \<Rightarrow> APSWCursor \<Rightarrow> exectrace_oldstate \<Rightarrow> world \<Rightarrow> (int \<times> world) option" where
  "APSWCursor_doexectrace E self etos w =
     (case (exectrace self, previouszsqlpos etos, zsqlnextpos self) of
        (Some tracer, Some prev, Some rest) \<Rightarrow>
          (case PyUnicode_DecodeUTF8 (take (length prev - length rest) prev) of
             Inl e \<Rightarrow> Some (-1, PyErr_Set e w)
           | Inr sqlcmd \<Rightarrow>
               (case exectrace_bindings (bindings self) (savedbindingsoffset etos)
                       (bindingsoffset self) of
                  None \<Rightarrow> Some (-1, PyErr_Set PyExc_TypeError w)
                | Some b \<Rightarrow>
                    (case PyObject_CallFunction E tracer [sqlcmd, b] w of
                       (None, w1) \<Rightarrow> Some (-1, w1)
                     | (Some retval, w1) \<Rightarrow>
                         (case PyObject_IsTrue E retval w1 of
                            (result, w2) \<Rightarrow>
                              if result = -1 then Some (-1, w2)
                              else if result \<noteq> 0 then Some (0, w2)
                              else Some (-1, PyErr_Set ExcTraceAbort w2)))))
      | _ \<Rightarrow> None)"

text \<open>The guarded call \<^verbatim>\<open>if(self->exectrace) APSWCursor_doexectrace(...)\<close>.\<close>

definition doexectrace_if_set :: "env \<Rightarrow> APSWCursor \<Rightarrow> exectrace_oldstate \<Rightarrow> world \<Rightarrow> (int \<times> world) option" where
  "doexectrace_if_set E self etos w =
     (if exectrace self = None then Some (0, w) else APSWCursor_doexectrace E self etos w)"

subsection \<open>Stepping\<close>

text \<open>
  The body of the \<^verbatim>\<open>for(;;)\<close> loop of \<^verbatim>\<open>APSWCursor_step\<close> either returns (\<open>True\<close> for the
  borrowed reference to the cursor, \<open>False\<close> for \<^verbatim>\<open>NULL\<close>) or goes round again.
\<close>

datatype 'a loop = Return bool 'a | Again 'a

text \<open>
  The end of the loop body, from the comment \<^verbatim>\<open>finalise and go again\<close>: the finished
  statement goes back to the statement cache, the next one is compiled from
  \<^verbatim>\<open>zsqlnextpos\<close>, bound and traced.
\<close>

definition finalise_and_go_again :: "env \<Rightarrow> APSWCursor \<Rightarrow> world \<Rightarrow> (APSWCursor \<times> world) loop option" where
  "finalise_and_go_again E self w =
     (case statementcache_finalize E (statement self) w of
        (res, w1) \<Rightarrow>
          (let self1 = self\<lparr>statement := None\<rparr>;
               w2 = SET_EXC res w1
           in if res \<noteq> SQLITE_OK then Some (Return False (self1, w2))
              else
                (let etos = \<lparr>previouszsqlpos = zsqlnextpos self1,
                             savedbindingsoffset = bindingsoffset self1\<rparr>
                 in case zsqlnextpos self1 of
                      None \<Rightarrow> None
                    | Some text \<Rightarrow>
                        (case statementcache_prepare E text w2 of
                           ((res', stmt, rest), w3) \<Rightarrow>
                             (let self2 = self1\<lparr>statement := stmt, zsqlnextpos := Some rest\<rparr>;
                                  w4 = SET_EXC res' w3
                              in if res' \<noteq> SQLITE_OK then Some (Return False (self2, w4))
                                 else
                                   (case APSWCursor_dobindings E self2 w4 of
                                      None \<Rightarrow> None
                                    | Some (r, self3, w5) \<Rightarrow>
                                        if r \<noteq> 0 then Some (Return False (self3, w5))
                                        else
                                          (case doexectrace_if_set E self3 etos w5 of
                                             None \<Rightarrow> None
                                           | Some (t, w6) \<Rightarrow>
                                               if t \<noteq> 0 then Some (Return False (self3, w6))
                                               else Some (Again (self3\<lparr>status := C_BEGIN\<rparr>,
                                                                 w6)))))))))"

text \<open>
  The loop body after the \<^verbatim>\<open>switch\<close>, from the comment
  \<^verbatim>\<open>done with that statement, are there any more?\<close>
\<close>

definition step_done :: "env \<Rightarrow> APSWCursor \<Rightarrow> world \<Rightarrow> (APSWCursor \<times> world) loop option" where
  "step_done E self w =
     (let self1 = self\<lparr>status := C_DONE\<rparr>
      in if zsqlnextpos self1 = None \<or> zsqlnextpos self1 = Some []
         then
           (case emiter self1 of
              None \<Rightarrow>
                (case resetcursor E self1 0 w of
                   (r, self2, w1) \<Rightarrow> Some (Return (r = SQLITE_OK) (self2, w1)))
            | Some it \<Rightarrow>
                (case PyIter_Next it w of
                   (next, it', w1) \<Rightarrow>
                     (let self2 = self1\<lparr>emiter := Some it'\<rparr>
                      in if PyErr_Occurred w1 then Some (Return False (self2, w1))
                         else
                           (case next of
                              None \<Rightarrow>
                                (case resetcursor E self2 0 w1 of
                                   (r, self3, w2) \<Rightarrow> Some (Return (r = SQLITE_OK) (self3, w2)))
                            | Some nx \<Rightarrow>
                                (let self3 = self2\<lparr>zsqlnextpos := zsql self2, bindings := None,
                                                   bindingsoffset := 0\<rparr>
                                 in if PyDict_Check nx
                                    then finalise_and_go_again E (self3\<lparr>bindings := Some nx\<rparr>) w1
                                    else
                                      (case PySequence_Fast nx w1 of
                                         Inl e \<Rightarrow> Some (Return False (self3, PyErr_Set e w1))
                                       | Inr sq \<Rightarrow>
                                           finalise_and_go_again E
                                             (self3\<lparr>bindings := Some sq\<rparr>) w1))))))
         else finalise_and_go_again E self1 w)"

definition step_body :: "env \<Rightarrow> APSWCursor \<Rightarrow> world \<Rightarrow> (APSWCursor \<times> world) loop option" where
  "step_body E self w =
     (case (case statement self of
              Some h \<Rightarrow> sqlite3_step E h w
            | None \<Rightarrow> (SQLITE_DONE, w)) of
        (res, w1) \<Rightarrow>
          (let self1 = self\<lparr>inuse := 0\<rparr>
           in if res AND 0xff = SQLITE_ROW
              then Some (Return (\<not> PyErr_Occurred w1) (self1\<lparr>status := C_ROW\<rparr>, w1))
              else if res AND 0xff = SQLITE_DONE
              then (if PyErr_Occurred w1
                    then Some (Return False (self1\<lparr>status := C_DONE\<rparr>, w1))
                    else step_done E self1 w1)
              else (case resetcursor E (self1\<lparr>status := C_DONE\<rparr>) 0 w1 of
                      (res', self2, w2) \<Rightarrow> Some (Return False (self2, w2)))))"

text \<open>
  \<^verbatim>\<open>APSWCursor_step\<close>. The result is \<open>None\<close> when the loop never ends or the C code has
  no defined result.
\<close>

partial_function (option) APSWCursor_step :: "env \<Rightarrow> APSWCursor \<times> world \<Rightarrow> (bool \<times> APSWCursor \<times> world) option" where
  "APSWCursor_step E sw =
     (case step_body E (fst sw) (snd sw) of
        None \<Rightarrow> None
      | Some (Return ok sw') \<Rightarrow> Some (ok, sw')
      | Some (Again sw') \<Rightarrow> APSWCursor_step E sw')"

subsection \<open>The methods of the cursor\<close>

text \<open>
  A method takes the tuple of its Python arguments as a list and gives what it returns
  to Python with the cursor and the world it leaves.

  \<^verbatim>\<open>PyArg_ParseTuple\<close> with the format \<^verbatim>\<open>es|O\<close> of \<^verbatim>\<open>execute\<close>, \<^verbatim>\<open>esO\<close> of
  \<^verbatim>\<open>executemany\<close> and \<^verbatim>\<open>|i\<close> of \<^verbatim>\<open>close\<close>. The format \<^verbatim>\<open>es\<close> takes a \<^verbatim>\<open>str\<close>, encodes it and
  gives the encoding as a C string, so it refuses a text with a NUL character.
\<close>

definition parse_es :: "string \<Rightarrow> pyexc + string" where
  "parse_es s =
     (case PyUnicode_AsUTF8String s of
        Inl e \<Rightarrow> Inl e
      | Inr data \<Rightarrow> if CHR 0x00 \<in> set data then Inl PyExc_TypeError else Inr data)"

fun parse_execute :: "pyobj list \<Rightarrow> pyexc + string \<times> pyobj option" where
  "parse_execute [PyUnicode sql] =
     (case parse_es sql of Inl e \<Rightarrow> Inl e | Inr data \<Rightarrow> Inr (data, None))"
| "parse_execute [PyUnicode sql, b] =
     (case parse_es sql of Inl e \<Rightarrow> Inl e | Inr data \<Rightarrow> Inr (data, Some b))"
| "parse_execute _ = Inl PyExc_TypeError"

fun parse_executemany :: "pyobj list \<Rightarrow> pyexc + string \<times> pyobj" where
  "parse_executemany [PyUnicode sql, b] =
     (case parse_es sql of Inl e \<Rightarrow> Inl e | Inr data \<Rightarrow> Inr (data, b))"
| "parse_executemany _ = Inl PyExc_TypeError"

fun parse_close :: "pyobj list \<Rightarrow> pyexc + int" where
  "parse_close [] = Inr 0"
| "parse_close [PyLong i] =
     (if - 2147483648 \<le> i \<and> i \<le> 2147483647 then Inr i else Inl PyExc_OverflowError)"
| "parse_close _ = Inl PyExc_TypeError"

text \<open>
  \<^verbatim>\<open>APSWCursor_execute\<close> and \<^verbatim>\<open>APSWCursor_executemany\<close> end with the same code, word for word
  but for the traceback: the text of \<^verbatim>\<open>zsql\<close> is compiled, \<^verbatim>\<open>bindingsoffset\<close> is set to 0,
  the parameters are bound, the tracer is called, \<^verbatim>\<open>status\<close> becomes \<^verbatim>\<open>C_BEGIN\<close> and the
  cursor is stepped.
\<close>

definition execute_tail :: "env \<Rightarrow> APSWCursor \<Rightarrow> world \<Rightarrow> (retval \<times> APSWCursor \<times> world) option" where
  "execute_tail E self w =
     (let etos = \<lparr>previouszsqlpos = zsql self, savedbindingsoffset = 0\<rparr>
      in case zsql self of
           None \<Rightarrow> None
         | Some sql \<Rightarrow>
             (case statementcache_prepare E sql w of
                ((res, stmt, rest), w1) \<Rightarrow>
                  (let self1 = self\<lparr>statement := stmt, zsqlnextpos := Some rest\<rparr>;
                       w2 = SET_EXC res w1
                   in if res \<noteq> SQLITE_OK then Some (RetNULL, self1, w2)
                      else
                        (case APSWCursor_dobindings E (self1\<lparr>bindingsoffset := 0\<rparr>) w2 of
                           None \<Rightarrow> None
                         | Some (r, self2, w3) \<Rightarrow>
                             if r \<noteq> 0 then Some (RetNULL, self2, w3)
                             else
                               (case doexectrace_if_set E self2 etos w3 of
                                  None \<Rightarrow> None
                                | Some (t, w4) \<Rightarrow>
                                    if t \<noteq> 0 then Some (RetNULL, self2, w4)
                                    else
                                      (case APSWCursor_step E (self2\<lparr>status := C_BEGIN\<rparr>, w4) of
                                         None \<Rightarrow> None
                                       | Some (ok, self3, w5) \<Rightarrow>
                                           Some (if ok then RetSelf else RetNULL, self3, w5)))))))"

text \<open>The bindings argument of \<^verbatim>\<open>execute\<close>: a dictionary as it is, anything else as a list.\<close>

definition execute_bindings :: "pyobj option \<Rightarrow> world \<Rightarrow> pyexc + pyobj option" where
  "execute_bindings b w =
     (case b of
        None \<Rightarrow> Inr None
      | Some obj \<Rightarrow>
          if PyDict_Check obj then Inr (Some obj)
          else (case PySequence_Fast obj w of Inl e \<Rightarrow> Inl e | Inr sq \<Rightarrow> Inr (Some sq)))"

definition APSWCursor_execute :: "env \<Rightarrow> APSWCursor \<Rightarrow> pyobj list \<Rightarrow> world \<Rightarrow> (retval \<times> APSWCursor \<times> world) option" where
  "APSWCursor_execute E self args w =
     (case CHECK_USE self w of
        Some w' \<Rightarrow> Some (RetNULL, self, w')
      | None \<Rightarrow>
          (case CHECK_CLOSED (connection self) w of
             Some w' \<Rightarrow> Some (RetNULL, self, w')
           | None \<Rightarrow>
               (case resetcursor E self 0 w of
                  (res, self1, w1) \<Rightarrow>
                    if res \<noteq> SQLITE_OK then Some (RetNULL, self1, w1)
                    else
                      (case parse_execute args of
                         Inl e \<Rightarrow> Some (RetNULL, self1, PyErr_Set e w1)
                       | Inr (sql, b) \<Rightarrow>
                           (case execute_bindings b w1 of
                              Inl e \<Rightarrow>
                                Some (RetNULL, self1\<lparr>zsql := Some sql, bindings := None\<rparr>,
                                      PyErr_Set e w1)
                            | Inr b' \<Rightarrow>
                                execute_tail E (self1\<lparr>zsql := Some sql, bindings := b'\<rparr>) w1)))))"

definition APSWCursor_executemany :: "env \<Rightarrow> APSWCursor \<Rightarrow> pyobj list \<Rightarrow> world \<Rightarrow> (retval \<times> APSWCursor \<times> world) option" where
  "APSWCursor_executemany E self args w =
     (case CHECK_USE self w of
        Some w' \<Rightarrow> Some (RetNULL, self, w')
      | None \<Rightarrow>
          (case CHECK_CLOSED (connection self) w of
             Some w' \<Rightarrow> Some (RetNULL, self, w')
           | None \<Rightarrow>
               (case resetcursor E self 0 w of
                  (res, self1, w1) \<Rightarrow>
                    if res \<noteq> SQLITE_OK then Some (RetNULL, self1, w1)
                    else
                      (case parse_executemany args of
                         Inl e \<Rightarrow> Some (RetNULL, self1, PyErr_Set e w1)
                       | Inr (sql, theiterable) \<Rightarrow>
                           (case PyObject_GetIter theiterable w1 of
                              Inl e \<Rightarrow>
                                Some (RetNULL, self1\<lparr>zsql := Some sql\<rparr>,
                                      PyErr_Set PyExc_TypeError w1)
                            | Inr it \<Rightarrow>
                                (case PyIter_Next it w1 of
                                   (next, it', w2) \<Rightarrow>
                                     (let self2 = self1\<lparr>zsql := Some sql, emiter := Some it'\<rparr>
                                      in case next of
                                           None \<Rightarrow>
                                             (if PyErr_Occurred w2 then Some (RetNULL, self2, w2)
                                              else Some (RetSelf, self2, w2))
                                         | Some nx \<Rightarrow>
                                             (case (if PyDict_Check nx then Inr nx
                                                    else PySequence_Fast nx w2) of
                                                Inl e \<Rightarrow> Some (RetNULL, self2, PyErr_Set e w2)
                                              | Inr b \<Rightarrow>
                                                  execute_tail E (self2\<lparr>bindings := Some b\<rparr>)
                                                    w2))))))))"

definition APSWCursor_close :: "env \<Rightarrow> APSWCursor \<Rightarrow> pyobj list \<Rightarrow> world \<Rightarrow> retval \<times> APSWCursor \<times> world" where
  "APSWCursor_close E self args w =
     (case CHECK_USE self w of
        Some w' \<Rightarrow> (RetNULL, self, w')
      | None \<Rightarrow>
          if db (connection self) = None then (RetObj Py_None, self, w)
          else
            (case parse_close args of
               Inl e \<Rightarrow> (RetNULL, self, PyErr_Set e w)
             | Inr force \<Rightarrow>
                 (case resetcursor E self force w of
                    (res, self1, w1) \<Rightarrow>
                      if res \<noteq> SQLITE_OK then (RetNULL, self1, w1)
                      else (RetObj Py_None, self1, w1))))"

text \<open>
  \<^verbatim>\<open>APSWCursor_next\<close>, with its label \<^verbatim>\<open>again\<close> as the recursion: the columns of the row
  are converted one after the other and the first that fails ends the call with its
  exception; a row that the row tracer turns into \<^verbatim>\<open>None\<close> is skipped.
\<close>

partial_function (option) APSWCursor_next_again :: "env \<Rightarrow> APSWCursor \<times> world \<Rightarrow> (retval \<times> APSWCursor \<times> world) option" where
  "APSWCursor_next_again E sw =
     (case (if status (fst sw) = C_BEGIN then APSWCursor_step E sw
            else Some (True, sw)) of
        None \<Rightarrow> None
      | Some (ok, self1, w1) \<Rightarrow>
          if \<not> ok then Some (RetNULL, self1, w1)
          else if status self1 = C_DONE then Some (RetNULL, self1, w1)
          else
            (let self2 = self1\<lparr>status := C_BEGIN\<rparr>
             in case iter_outcomes (map convert_column_to_pyobject
                                      (sqlite3_row E (statement self2) w1)) of
                  Inl e \<Rightarrow> Some (RetNULL, self2, PyErr_Set e w1)
                | Inr row \<Rightarrow>
                    (case rowtrace self2 of
                       None \<Rightarrow> Some (RetObj (PySeq row), self2, w1)
                     | Some tracer \<Rightarrow>
                         (case PyObject_CallFunction E tracer row w1 of
                            (None, w2) \<Rightarrow> Some (RetNULL, self2, w2)
                          | (Some r2, w2) \<Rightarrow>
                              if r2 = Py_None then APSWCursor_next_again E (self2, w2)
                              else Some (RetObj r2, self2, w2)))))"

definition APSWCursor_next :: "env \<Rightarrow> APSWCursor \<Rightarrow> world \<Rightarrow> (retval \<times> APSWCursor \<times> world) option" where
  "APSWCursor_next E self w =
     (case CHECK_USE self w of
        Some w' \<Rightarrow> Some (RetNULL, self, w')
      | None \<Rightarrow>
          (case CHECK_CLOSED (connection self) w of
             Some w' \<Rightarrow> Some (RetNULL, self, w')
           | None \<Rightarrow> APSWCursor_next_again E (self, w)))"

definition APSWCursor_iter :: "APSWCursor \<Rightarrow> world \<Rightarrow> retval \<times> APSWCursor \<times> world" where
  "APSWCursor_iter self w =
     (case CHECK_USE self w of
        Some w' \<Rightarrow> (RetNULL, self, w')
      | None \<Rightarrow>
          (case CHECK_CLOSED (connection self) w of
             Some w' \<Rightarrow> (RetNULL, self, w')
           | None \<Rightarrow> (RetSelf, self, w)))"

definition APSWCursor_setexectrace :: "APSWCursor \<Rightarrow> pyobj \<Rightarrow> world \<Rightarrow> retval \<times> APSWCursor \<times> world" where
  "APSWCursor_setexectrace self func w =
     (case CHECK_USE self w of
        Some w' \<Rightarrow> (RetNULL, self, w')
      | None \<Rightarrow>
          (case CHECK_CLOSED (connection self) w of
             Some w' \<Rightarrow> (RetNULL, self, w')
           | None \<Rightarrow>
               if func \<noteq> Py_None \<and> \<not> PyCallable_Check func
               then (RetNULL, self, PyErr_Set PyExc_TypeError w)
               else (RetObj Py_None,
                     self\<lparr>exectrace := (if func \<noteq> Py_None then Some func else None)\<rparr>, w)))"

definition APSWCursor_setrowtrace :: "APSWCursor \<Rightarrow> pyobj \<Rightarrow> world \<Rightarrow> retval \<times> APSWCursor \<times> world" where
  "APSWCursor_setrowtrace self func w =
     (case CHECK_USE self w of
        Some w' \<Rightarrow> (RetNULL, self, w')
      | None \<Rightarrow>
          (case CHECK_CLOSED (connection self) w of
             Some w' \<Rightarrow> (RetNULL, self, w')
           | None \<Rightarrow>
               if func \<noteq> Py_None \<and> \<not> PyCallable_Check func
               then (RetNULL, self, PyErr_Set PyExc_TypeError w)
               else (RetObj Py_None,
                     self\<lparr>rowtrace := (if func \<noteq> Py_None then Some func else None)\<rparr>, w)))"

definition APSWCursor_getexectrace :: "APSWCursor \<Rightarrow> world \<Rightarrow> retval \<times> APSWCursor \<times> world" where
  "APSWCursor_getexectrace self w =
     (case CHECK_USE self w of
        Some w' \<Rightarrow> (RetNULL, self, w')
      | None \<Rightarrow>
          (case CHECK_CLOSED (connection self) w of
             Some w' \<Rightarrow> (RetNULL, self, w')
           | None \<Rightarrow>
               (RetObj (case exectrace self of Some f \<Rightarrow> f | None \<Rightarrow> Py_None), self, w)))"

definition APSWCursor_getrowtrace :: "APSWCursor \<Rightarrow> world \<Rightarrow> retval \<times> APSWCursor \<times> world" where
  "APSWCursor_getrowtrace self w =
     (case CHECK_USE self w of
        Some w' \<Rightarrow> (RetNULL, self, w')
      | None \<Rightarrow>
          (case CHECK_CLOSED (connection self) w of
             Some w' \<Rightarrow> (RetNULL, self, w')
           | None \<Rightarrow>
               (RetObj (case rowtrace self of Some f \<Rightarrow> f | None \<Rightarrow> Py_None), self, w)))"

section \<open>Observations and examples\<close>

text \<open>
  The definitions of this section are not part of the embedded code. They name what the
  theorems below observe in the list of calls, and give small environments on which the
  theorems are run.
\<close>












text \<open>The cursor as \<^verbatim>\<open>resetcursor\<close> leaves it.\<close>

definition cleared :: "APSWCursor \<Rightarrow> APSWCursor" where
  "cleared self =
     self\<lparr>bindings := None, bindingsoffset := -1, statement := None, zsqlnextpos := None,
          emiter := None, zsql := None, status := C_DONE\<rparr>"

text \<open>
  An environment for examples. A text is split at its first semicolon; the handle of a
  unit is ten times the length of the text it was compiled from plus the number of its
  question marks, which is also its number of parameters. The results of stepping and of
  finalizing are given by \<open>stepf\<close> and \<open>finf\<close> from the calls so far; parameters have the
  names \<open>:x\<close>, \<open>:xx\<close>, ... when \<open>named\<close> holds and no name otherwise. The tracer and the
  row tracer answer 1, which is true.
\<close>

definition demo_env :: "(call list \<Rightarrow> int) \<Rightarrow> (call list \<Rightarrow> int) \<Rightarrow> bool \<Rightarrow> env" where
  "demo_env stepf finf named =
     \<lparr>lib_prepare = (\<lambda>log sql.
        (SQLITE_OK,
         (if sql = [] then None
          else Some (10 * length sql
                     + count_list (takeWhile (\<lambda>ch. ch \<noteq> CHR '';'') sql) CHR ''?'')),
         drop 1 (dropWhile (\<lambda>ch. ch \<noteq> CHR '';'') sql))),
      lib_finalize = (\<lambda>log stmt. finf log),
      lib_step = (\<lambda>log h. (stepf log, None)),
      lib_parameter_count = (\<lambda>h. int (h mod 10)),
      lib_parameter_name = (\<lambda>h arg.
        if named then Some (CHR '':'' # replicate (nat arg) CHR ''x'') else None),
      lib_bind = (\<lambda>log h arg v. SQLITE_OK),
      lib_row = (\<lambda>log h. []),
      py_call = (\<lambda>log f args. Inr (PyLong 1)),
      py_istrue = (\<lambda>obj. Inr (obj \<noteq> PyLong 0 \<and> obj \<noteq> Py_None))\<rparr>"

definition demo_cursor :: APSWCursor where
  "demo_cursor = APSWCursor_init \<lparr>db = Some 1\<rparr>"

definition demo_world :: world where
  "demo_world = \<lparr>pyerr = None, calls = []\<rparr>"

declare APSWCursor_step.simps [code]

declare APSWCursor_next_again.simps [code]

section \<open>Auxiliary facts\<close>

subsection \<open>Bindings of one value and of a dictionary\<close>






subsection \<open>Bindings of a sequence\<close>



subsection \<open>Bindings that fit\<close>




subsection \<open>The tracer\<close>




subsection \<open>Resetting the cursor\<close>

lemma outcomes_cases:
  obtains "outs = []" | x r where "outs = Inr x # r" | e r where "outs = Inl e # r"
proof (cases outs)
  case Nil
  then show ?thesis using that by simp
next
  case (Cons a r)
  then show ?thesis using that by (cases a) auto
qed

lemma iter_pop_calls [simp]: "calls (snd (snd (iter_pop k outs w))) = calls w"
  by (cases outs rule: outcomes_cases) (simp_all add: PyErr_Set_def)

lemma PyIter_Next_calls [simp]: "calls (snd (snd (PyIter_Next it w))) = calls w"
  by (simp add: PyIter_Next_def PyErr_Set_def)


lemma SET_EXC_calls [simp]: "calls (SET_EXC r w) = calls w"
  by (simp add: SET_EXC_def PyErr_Set_def)

lemma PyErr_Set_calls [simp]: "calls (PyErr_Set e w) = calls w"
  by (simp add: PyErr_Set_def)

lemma cleared_fields [simp]:
  "statement (cleared self) = None" "status (cleared self) = C_DONE"
  "emiter (cleared self) = None" "bindings (cleared self) = None"
  "zsql (cleared self) = None" "zsqlnextpos (cleared self) = None"
  "inuse (cleared self) = inuse self" "exectrace (cleared self) = exectrace self"
  "rowtrace (cleared self) = rowtrace self" "connection (cleared self) = connection self"
  "bindingsoffset (cleared self) = -1"
  by (simp_all add: cleared_def)

lemma cleared_idem [simp]: "cleared (cleared self) = cleared self"
  by (simp add: cleared_def)

lemma resetcursor_cursor: "fst (snd (resetcursor E self force w)) = cleared self"
  by (simp add: resetcursor_def cleared_def Let_def split_beta)











subsection \<open>One pass through the loop of the step function\<close>


lemma iter_outcomes_values [simp]: "iter_outcomes (map Inr xs) = Inr xs"
  by (induction xs) simp_all

lemma iterator_of_seq [simp]: "iterator_of (PySeq xs) = Some (Builtin, map Inr xs)"
  by simp














subsection \<open>The loop of the step function over a batch\<close>



subsection \<open>The arguments of execute and executemany\<close>




lemma resetcursor_result:
  "resetcursor E self force w
     = (fst (resetcursor E self force w), cleared self, snd (snd (resetcursor E self force w)))"
  using resetcursor_cursor [of E self force w]
  by (cases "resetcursor E self force w") simp

subsection \<open>Facts about the examples\<close>

lemmas demo_defs = demo_env_def demo_cursor_def demo_world_def APSWCursor_init_def





section \<open>Properties\<close>

subsection \<open>A chain of statements\<close>




subsection \<open>A batch of binding sets\<close>



subsection \<open>Closing a cursor that has not finished\<close>




subsection \<open>Binding a sequence\<close>




subsection \<open>Binding a dictionary\<close>




subsection \<open>An error of the engine\<close>




subsection \<open>The in-use flag\<close>

text \<open>
  C7. Every entry point of the cursor (\<^verbatim>\<open>execute\<close>, \<^verbatim>\<open>executemany\<close>, the row iterator's
  \<^verbatim>\<open>next\<close> and \<^verbatim>\<open>iter\<close>, \<^verbatim>\<open>close\<close>, \<^verbatim>\<open>setexectrace\<close>, \<^verbatim>\<open>setrowtrace\<close>, \<^verbatim>\<open>getexectrace\<close> and
  \<^verbatim>\<open>getrowtrace\<close>) that is called while the in-use flag of the cursor is set returns
  \<^verbatim>\<open>NULL\<close> at once: the cursor is left as it was and nothing is asked of SQLite. It raises
  \<^verbatim>\<open>ThreadingViolation\<close> when no exception is pending; an exception that is pending is
  left as it is.
\<close>

theorem inuse_call_fails_at_once:
  assumes "inuse self \<noteq> 0"
  shows "APSWCursor_execute E self args w
           = Some (RetNULL, self,
                   if pyerr w = None then w\<lparr>pyerr := Some ExcThreadingViolation\<rparr> else w)
       \<and> APSWCursor_executemany E self args w
           = Some (RetNULL, self,
                   if pyerr w = None then w\<lparr>pyerr := Some ExcThreadingViolation\<rparr> else w)
       \<and> APSWCursor_next E self w
           = Some (RetNULL, self,
                   if pyerr w = None then w\<lparr>pyerr := Some ExcThreadingViolation\<rparr> else w)
       \<and> APSWCursor_close E self args w
           = (RetNULL, self,
              if pyerr w = None then w\<lparr>pyerr := Some ExcThreadingViolation\<rparr> else w)
       \<and> APSWCursor_setexectrace self func w
           = (RetNULL, self,
              if pyerr w = None then w\<lparr>pyerr := Some ExcThreadingViolation\<rparr> else w)
       \<and> APSWCursor_setrowtrace self func w
           = (RetNULL, self,
              if pyerr w = None then w\<lparr>pyerr := Some ExcThreadingViolation\<rparr> else w)
       \<and> APSWCursor_iter self w
           = (RetNULL, self,
              if pyerr w = None then w\<lparr>pyerr := Some ExcThreadingViolation\<rparr> else w)
       \<and> APSWCursor_getexectrace self w
           = (RetNULL, self,
              if pyerr w = None then w\<lparr>pyerr := Some ExcThreadingViolation\<rparr> else w)
       \<and> APSWCursor_getrowtrace self w
           = (RetNULL, self,
              if pyerr w = None then w\<lparr>pyerr := Some ExcThreadingViolation\<rparr> else w)"
  using assms
  by (simp add: APSWCursor_execute_def APSWCursor_executemany_def APSWCursor_next_def
      APSWCursor_close_def APSWCursor_setexectrace_def APSWCursor_setrowtrace_def
      APSWCursor_iter_def APSWCursor_getexectrace_def APSWCursor_getrowtrace_def
      CHECK_USE_def PyErr_Occurred_def PyErr_Set_def)

theorem inuse_call_fails_at_once_witness:
  "inuse (demo_cursor\<lparr>inuse := 1\<rparr>) \<noteq> 0
   \<and> APSWCursor_execute (demo_env (\<lambda>log. SQLITE_DONE) (\<lambda>log. SQLITE_OK) False)
        (demo_cursor\<lparr>inuse := 1\<rparr>) [PyUnicode ''SELECT 1''] demo_world
      = Some (RetNULL, demo_cursor\<lparr>inuse := 1\<rparr>,
              \<lparr>pyerr = Some ExcThreadingViolation, calls = []\<rparr>)
   \<and> APSWCursor_close (demo_env (\<lambda>log. SQLITE_DONE) (\<lambda>log. SQLITE_OK) False)
        (demo_cursor\<lparr>inuse := 1\<rparr>) [PyUnicode ''SELECT 1''] demo_world
      = (RetNULL, demo_cursor\<lparr>inuse := 1\<rparr>,
         \<lparr>pyerr = Some ExcThreadingViolation, calls = []\<rparr>)"
  using inuse_call_fails_at_once
    [of "demo_cursor\<lparr>inuse := 1\<rparr>"
        "demo_env (\<lambda>log. SQLITE_DONE) (\<lambda>log. SQLITE_OK) False" "[PyUnicode ''SELECT 1'']"
        demo_world]
  by (simp add: demo_cursor_def demo_world_def APSWCursor_init_def)

text \<open>
  The claim as it is written fails: \<^verbatim>\<open>execute\<close> is called on a cursor in use while an
  exception is pending. It returns \<^verbatim>\<open>NULL\<close> and leaves the cursor and the pending
  exception as they were: \<^verbatim>\<open>ThreadingViolation\<close> is not raised.
\<close>

theorem inuse_call_keeps_pending_exception:
  "APSWCursor_execute (demo_env (\<lambda>log. SQLITE_DONE) (\<lambda>log. SQLITE_OK) False)
        (demo_cursor\<lparr>inuse := 1\<rparr>) [PyUnicode ''SELECT 1'']
        \<lparr>pyerr = Some (PyExc_Raised ''KeyError''), calls = []\<rparr>
      = Some (RetNULL, demo_cursor\<lparr>inuse := 1\<rparr>,
              \<lparr>pyerr = Some (PyExc_Raised ''KeyError''), calls = []\<rparr>)"
  by (simp add: APSWCursor_execute_def CHECK_USE_def PyErr_Occurred_def demo_cursor_def
      APSWCursor_init_def)

subsection \<open>Closing with force\<close>

text \<open>
  C8. A cursor executes \<^verbatim>\<open>SELECT 1\<close> and holds the unit at its first row. The statement
  cache then reports an error when it takes the unit back (here \<^verbatim>\<open>SQLITE_IOERR\<close>). The first
  \<^verbatim>\<open>close\<close> with force hands the unit back once, clears the cursor and returns \<^verbatim>\<open>NULL\<close> with
  no exception set; the second finds nothing to release, calls nothing and returns
  \<^verbatim>\<open>None\<close>.
\<close>

theorem forced_close_fails_on_finalize_error:
  "APSWCursor_execute (demo_env (\<lambda>log. SQLITE_ROW) (\<lambda>log. SQLITE_IOERR) False) demo_cursor
      [PyUnicode ''SELECT 1''] demo_world
     = Some (RetSelf,
             demo_cursor\<lparr>statement := Some 80, zsql := Some ''SELECT 1'',
                          zsqlnextpos := Some [], status := C_ROW\<rparr>,
             \<lparr>pyerr = None, calls = [CallPrepare ''SELECT 1'', CallStep 80]\<rparr>)
   \<and> APSWCursor_close (demo_env (\<lambda>log. SQLITE_ROW) (\<lambda>log. SQLITE_IOERR) False)
        (demo_cursor\<lparr>statement := Some 80, zsql := Some ''SELECT 1'',
                      zsqlnextpos := Some [], status := C_ROW\<rparr>)
        [PyLong 1] \<lparr>pyerr = None, calls = [CallPrepare ''SELECT 1'', CallStep 80]\<rparr>
     = (RetNULL, cleared demo_cursor,
        \<lparr>pyerr = None,
         calls = [CallPrepare ''SELECT 1'', CallStep 80, CallFinalize (Some 80)]\<rparr>)
   \<and> APSWCursor_close (demo_env (\<lambda>log. SQLITE_ROW) (\<lambda>log. SQLITE_IOERR) False)
        (cleared demo_cursor) [PyLong 1]
        \<lparr>pyerr = None,
         calls = [CallPrepare ''SELECT 1'', CallStep 80, CallFinalize (Some 80)]\<rparr>
     = (RetObj Py_None, cleared demo_cursor,
        \<lparr>pyerr = None,
         calls = [CallPrepare ''SELECT 1'', CallStep 80, CallFinalize (Some 80)]\<rparr>)"
  by code_simp

subsection \<open>A closed connection\<close>

text \<open>
  C9. The connection of the cursor is closed. When the cursor is not in use, \<^verbatim>\<open>execute\<close>,
  \<^verbatim>\<open>executemany\<close>, the iterator's \<^verbatim>\<open>next\<close> and \<^verbatim>\<open>iter\<close>, \<^verbatim>\<open>setexectrace\<close>, \<^verbatim>\<open>setrowtrace\<close>,
  \<^verbatim>\<open>getexectrace\<close> and \<^verbatim>\<open>getrowtrace\<close> fail with \<^verbatim>\<open>ExcConnectionClosed\<close>, which replaces any
  exception that was pending, and leave the cursor as it was; but \<^verbatim>\<open>close\<close> does not fail:
  it returns \<^verbatim>\<open>None\<close> and changes nothing, whatever its arguments. When the cursor is in
  use, the check of the in-use flag comes first, for \<^verbatim>\<open>close\<close> too.
\<close>

theorem closed_connection_fails_except_close:
  assumes "db (connection self) = None"
  shows "APSWCursor_execute E self args w
           = Some (RetNULL, self,
                   if inuse self = 0 then w\<lparr>pyerr := Some ExcConnectionClosed\<rparr>
                   else if pyerr w = None then w\<lparr>pyerr := Some ExcThreadingViolation\<rparr> else w)
       \<and> APSWCursor_executemany E self args w
           = Some (RetNULL, self,
                   if inuse self = 0 then w\<lparr>pyerr := Some ExcConnectionClosed\<rparr>
                   else if pyerr w = None then w\<lparr>pyerr := Some ExcThreadingViolation\<rparr> else w)
       \<and> APSWCursor_next E self w
           = Some (RetNULL, self,
                   if inuse self = 0 then w\<lparr>pyerr := Some ExcConnectionClosed\<rparr>
                   else if pyerr w = None then w\<lparr>pyerr := Some ExcThreadingViolation\<rparr> else w)
       \<and> APSWCursor_iter self w
           = (RetNULL, self,
              if inuse self = 0 then w\<lparr>pyerr := Some ExcConnectionClosed\<rparr>
              else if pyerr w = None then w\<lparr>pyerr := Some ExcThreadingViolation\<rparr> else w)
       \<and> APSWCursor_setexectrace self func w
           = (RetNULL, self,
              if inuse self = 0 then w\<lparr>pyerr := Some ExcConnectionClosed\<rparr>
              else if pyerr w = None then w\<lparr>pyerr := Some ExcThreadingViolation\<rparr> else w)
       \<and> APSWCursor_setrowtrace self func w
           = (RetNULL, self,
              if inuse self = 0 then w\<lparr>pyerr := Some ExcConnectionClosed\<rparr>
              else if pyerr w = None then w\<lparr>pyerr := Some ExcThreadingViolation\<rparr> else w)
       \<and> APSWCursor_getexectrace self w
           = (RetNULL, self,
              if inuse self = 0 then w\<lparr>pyerr := Some ExcConnectionClosed\<rparr>
              else if pyerr w = None then w\<lparr>pyerr := Some ExcThreadingViolation\<rparr> else w)
       \<and> APSWCursor_getrowtrace self w
           = (RetNULL, self,
              if inuse self = 0 then w\<lparr>pyerr := Some ExcConnectionClosed\<rparr>
              else if pyerr w = None then w\<lparr>pyerr := Some ExcThreadingViolation\<rparr> else w)
       \<and> APSWCursor_close E self args w
           = (if inuse self = 0 then (RetObj Py_None, self, w)
              else (RetNULL, self,
                    if pyerr w = None then w\<lparr>pyerr := Some ExcThreadingViolation\<rparr> else w))"
  using assms
  by (simp add: APSWCursor_execute_def APSWCursor_executemany_def APSWCursor_next_def
      APSWCursor_iter_def APSWCursor_setexectrace_def APSWCursor_setrowtrace_def
      APSWCursor_getexectrace_def APSWCursor_getrowtrace_def APSWCursor_close_def
      CHECK_USE_def CHECK_CLOSED_def PyErr_Occurred_def PyErr_Set_def)

theorem closed_connection_fails_except_close_witness:
  "APSWCursor_execute (demo_env (\<lambda>log. SQLITE_DONE) (\<lambda>log. SQLITE_OK) False)
      (APSWCursor_init \<lparr>db = None\<rparr>) [PyUnicode ''SELECT 1''] demo_world
     = Some (RetNULL, APSWCursor_init \<lparr>db = None\<rparr>,
             \<lparr>pyerr = Some ExcConnectionClosed, calls = []\<rparr>)
   \<and> APSWCursor_next (demo_env (\<lambda>log. SQLITE_DONE) (\<lambda>log. SQLITE_OK) False)
      (APSWCursor_init \<lparr>db = None\<rparr>) demo_world
     = Some (RetNULL, APSWCursor_init \<lparr>db = None\<rparr>,
             \<lparr>pyerr = Some ExcConnectionClosed, calls = []\<rparr>)
   \<and> APSWCursor_setexectrace (APSWCursor_init \<lparr>db = None\<rparr>) (PyCallable 1) demo_world
     = (RetNULL, APSWCursor_init \<lparr>db = None\<rparr>,
        \<lparr>pyerr = Some ExcConnectionClosed, calls = []\<rparr>)"
  using closed_connection_fails_except_close
    [of "APSWCursor_init \<lparr>db = None\<rparr>"
        "demo_env (\<lambda>log. SQLITE_DONE) (\<lambda>log. SQLITE_OK) False" "[PyUnicode ''SELECT 1'']"
        demo_world "PyCallable 1"]
  by (simp add: demo_defs)

text \<open>
  The claim as it is written fails: \<^verbatim>\<open>close\<close> on a cursor whose connection is closed
  returns \<^verbatim>\<open>None\<close> and sets no exception.
\<close>

theorem close_on_closed_connection_returns_none:
  "APSWCursor_close (demo_env (\<lambda>log. SQLITE_DONE) (\<lambda>log. SQLITE_OK) False)
      (APSWCursor_init \<lparr>db = None\<rparr>) [] demo_world
     = (RetObj Py_None, APSWCursor_init \<lparr>db = None\<rparr>, \<lparr>pyerr = None, calls = []\<rparr>)"
  by (simp add: APSWCursor_close_def CHECK_USE_def APSWCursor_init_def demo_world_def)

subsection \<open>An empty batch\<close>




end
